theory Spec2Isabelle
  imports Complex_Main "HOL-Library.Word"
begin

section \<open>Result codes, events and organizer state\<close>

text \<open>
  The organizers of libbitcoin-blockchain drive one header
  (\<^verbatim>\<open>header_organizer.cpp\<close>) or one transaction (\<^verbatim>\<open>organize_transaction.cpp\<close>)
  through a chain of bound callbacks. The embedding below is sequential state passing:
  every member function takes the organizer's state and returns the state it leaves,
  and every call to a collaborator (validator, pool, fast chain, mutex, handler) is
  appended to an event list in the order the source makes it.

  \<open>code\<close> is the error code type; \<^verbatim>\<open>if (ec)\<close> in the source is \<open>ec \<noteq> success\<close> here.
  \<open>other_error n\<close> stands for the codes that the validators and the store can return
  and that the organizers only pass through.
\<close>

datatype code =
    success
  | service_stopped
  | operation_failed
  | duplicate_block
  | insufficient_work
  | duplicate_transaction
  | insufficient_fee
  | dusty_transaction
  | other_error nat

type_synonym size_t = "64 word"
type_synonym uint64_t = "64 word"
type_synonym uint256_t = "256 word"
type_synonym hash_digest = "256 word"
type_synonym checkpoint = "hash_digest \<times> size_t"

datatype 'a event =
    Check 'a
  | Lock_high_priority
  | Unlock_high_priority
  | Lock_low_priority
  | Unlock_low_priority
  | Get_branch 'a
  | Pool_exists 'a
  | Accept
  | Connect
  | Get_work uint256_t size_t
  | Pool_add 'a size_t
  | Reorganize checkpoint "'a list"
  | Store 'a
  | Log_fatal code
  | Handler code

text \<open>
  The members of both organizers: \<^verbatim>\<open>stopped_\<close>, \<^verbatim>\<open>pool_\<close> and
  \<^verbatim>\<open>fast_chain_\<close> (the states of the referenced pool and chain objects), and the
  event list. \<^verbatim>\<open>organize_transaction\<close> has the promise \<^verbatim>\<open>resume_\<close> in addition:
  \<open>None\<close> while no value has been set.
\<close>

record ('p, 'c, 'a) organizer =
  stopped :: bool
  pool :: 'p
  chain :: 'c
  events :: "'a event list"

record ('p, 'c, 'a) organize_transaction = "('p, 'c, 'a) organizer" +
  resume :: "code option"

definition emit :: "'a event \<Rightarrow> ('p, 'c, 'a, 'z) organizer_scheme \<Rightarrow> ('p, 'c, 'a, 'z) organizer_scheme" where
  "emit e s = s\<lparr>events := events s @ [e]\<rparr>"

text \<open>The caller's handler: its invocation with a code is recorded as an event.\<close>

definition notify :: "code \<Rightarrow> ('p, 'c, 'a, 'z) organizer_scheme \<Rightarrow> ('p, 'c, 'a, 'z) organizer_scheme" where
  "notify ec s = emit (Handler ec) s"

text \<open>
  \<^verbatim>\<open>start()\<close> and \<^verbatim>\<open>stop()\<close> write the atomic flag (both return true). Other threads may
  call them while a validator runs; such calls are given to \<open>organize\<close> as a list of
  \<open>control\<close> operations that take effect between the dispatch of the validator and its
  continuation.
\<close>

definition start :: "('p, 'c, 'a, 'z) organizer_scheme \<Rightarrow> ('p, 'c, 'a, 'z) organizer_scheme" where
  "start s = s\<lparr>stopped := False\<rparr>"

definition stop :: "('p, 'c, 'a, 'z) organizer_scheme \<Rightarrow> ('p, 'c, 'a, 'z) organizer_scheme" where
  "stop s = s\<lparr>stopped := True\<rparr>"

datatype control = Start | Stop

primrec run_controls :: "control list \<Rightarrow> ('p, 'c, 'a, 'z) organizer_scheme \<Rightarrow> ('p, 'c, 'a, 'z) organizer_scheme" where
  "run_controls [] s = s"
| "run_controls (c # cs) s = run_controls cs (case c of Start \<Rightarrow> start s | Stop \<Rightarrow> stop s)"

section \<open>The header organizer\<close>

text \<open>
  \<^verbatim>\<open>header_branch\<close> is declared outside the given sources; the organizer only reads the
  results of its accessors, which are the fields of this record.
\<close>

record 'a header_branch =
  branch_empty :: bool
  branch_top :: 'a
  branch_top_height :: size_t
  branch_height :: size_t
  branch_work :: uint256_t
  branch_fork_point :: checkpoint
  branch_headers :: "'a list"

text \<open>
  The collaborators of \<^verbatim>\<open>header_organizer\<close>, as parameters: \<^verbatim>\<open>validate_header\<close>
  (\<open>check\<close>, and the code that \<open>accept\<close> hands to its callback), \<^verbatim>\<open>header_pool\<close>
  (\<open>get_branch\<close>, \<open>add\<close>) and \<^verbatim>\<open>fast_chain\<close> (\<open>get_work\<close>, whose boolean result and
  out parameter are an option, and \<open>reorganize\<close>, which returns its code and the store
  it leaves).
\<close>

record ('p, 'c, 'a) header_collaborators =
  validator_check :: "'a \<Rightarrow> code"
  validator_accept :: "'c \<Rightarrow> 'a header_branch \<Rightarrow> code"
  pool_get_branch :: "'p \<Rightarrow> 'c \<Rightarrow> 'a \<Rightarrow> 'a header_branch"
  pool_add :: "'p \<Rightarrow> 'a \<Rightarrow> size_t \<Rightarrow> 'p"
  chain_get_work :: "'c \<Rightarrow> uint256_t \<Rightarrow> size_t \<Rightarrow> bool \<Rightarrow> uint256_t option"
  chain_reorganize :: "'c \<Rightarrow> checkpoint \<Rightarrow> 'a list \<Rightarrow> code \<times> 'c"

text \<open>The constructor leaves the organizer stopped.\<close>

definition header_organizer :: "'p \<Rightarrow> 'c \<Rightarrow> ('p, 'c, 'a) organizer" where
  "header_organizer p c = \<lparr>stopped = True, pool = p, chain = c, events = []\<rparr>"

definition header_organizer_handle_complete ::
  "code \<Rightarrow> (code \<Rightarrow> ('p, 'c, 'a) organizer \<Rightarrow> ('p, 'c, 'a) organizer) \<Rightarrow>
   ('p, 'c, 'a) organizer \<Rightarrow> ('p, 'c, 'a) organizer" where
  "header_organizer_handle_complete ec handler s = handler ec (emit Unlock_high_priority s)"

definition header_organizer_handle_accept ::
  "('p, 'c, 'a) header_collaborators \<Rightarrow> code \<Rightarrow> 'a header_branch \<Rightarrow>
   (code \<Rightarrow> ('p, 'c, 'a) organizer \<Rightarrow> ('p, 'c, 'a) organizer) \<Rightarrow>
   ('p, 'c, 'a) organizer \<Rightarrow> ('p, 'c, 'a) organizer" where
  "header_organizer_handle_accept env ec branch handler s =
    (if stopped s then handler service_stopped s
     else if ec \<noteq> success then handler ec s
     else
       let top = branch_top branch;
           work = branch_work branch;
           s1 = emit (Get_work work (branch_height branch)) s
       in
         (case chain_get_work env (chain s) work (branch_height branch) True of
            None \<Rightarrow> handler operation_failed s1
          | Some required_work \<Rightarrow>
              if work \<le> required_work then
                handler insufficient_work
                  (emit (Pool_add top (branch_top_height branch))
                     (s1\<lparr>pool := pool_add env (pool s1) top (branch_top_height branch)\<rparr>))
              else
                let (error_code, c) =
                      chain_reorganize env (chain s1) (branch_fork_point branch) (branch_headers branch);
                    s2 = emit (Reorganize (branch_fork_point branch) (branch_headers branch))
                           (s1\<lparr>chain := c\<rparr>)
                in
                  if error_code \<noteq> success then handler error_code (emit (Log_fatal error_code) s2)
                  else handler error_code s2))"

definition header_organizer_organize ::
  "('p, 'c, 'a) header_collaborators \<Rightarrow> control list \<Rightarrow> 'a \<Rightarrow>
   (code \<Rightarrow> ('p, 'c, 'a) organizer \<Rightarrow> ('p, 'c, 'a) organizer) \<Rightarrow>
   ('p, 'c, 'a) organizer \<Rightarrow> ('p, 'c, 'a) organizer" where
  "header_organizer_organize env during_accept header handler s =
    (let error_code = validator_check env header;
         s1 = emit (Check header) s
     in
       if error_code \<noteq> success then handler error_code s1
       else
         let complete = (\<lambda>ec. header_organizer_handle_complete ec handler);
             s2 = emit Lock_high_priority s1;
             branch = pool_get_branch env (pool s2) (chain s2) header;
             s3 = emit (Get_branch header) s2
         in
           if branch_empty branch then complete duplicate_block s3
           else
             let accept_handler = (\<lambda>ec. header_organizer_handle_accept env ec branch complete);
                 ec = validator_accept env (chain s3) branch;
                 s4 = run_controls during_accept (emit Accept s3)
             in accept_handler ec s4)"

section \<open>The transaction organizer\<close>

text \<open>
  The fee settings are \<^verbatim>\<open>float\<close>s. The organizer is defined over the operations that
  \<^verbatim>\<open>sufficient_fee\<close> applies to them (comparison with zero, the product with a
  \<^verbatim>\<open>size_t\<close>, the sum, the conversion of the literal 0 and the cast to \<^verbatim>\<open>uint64_t\<close>);
  \<open>binary32\<close> below is their single precision instance.
\<close>

record 'f float_arith =
  float_eq_zero :: "'f \<Rightarrow> bool"
  float_gt_zero :: "'f \<Rightarrow> bool"
  float_times_size :: "'f \<Rightarrow> size_t \<Rightarrow> 'f"
  float_of_zero :: 'f
  float_plus :: "'f \<Rightarrow> 'f \<Rightarrow> 'f"
  float_to_uint64 :: "'f \<Rightarrow> uint64_t"

record 'f settings =
  byte_fee_satoshis :: 'f
  sigop_fee_satoshis :: 'f
  minimum_output_satoshis :: uint64_t

text \<open>
  The collaborators of \<^verbatim>\<open>organize_transaction\<close>: \<^verbatim>\<open>validate_transaction\<close> (\<open>check\<close>, and
  the codes that \<open>accept\<close> and \<open>connect\<close> hand to their callbacks), \<^verbatim>\<open>transaction_pool\<close>
  (\<open>exists\<close>), \<^verbatim>\<open>fast_chain\<close> (\<open>store\<close>), the settings and the accessors of a transaction.
\<close>

record ('p, 'c, 'a, 'f) transaction_collaborators =
  tx_validator_check :: "'a \<Rightarrow> uint64_t \<Rightarrow> code"
  tx_validator_accept :: "'c \<Rightarrow> 'a \<Rightarrow> code"
  tx_validator_connect :: "'c \<Rightarrow> 'a \<Rightarrow> code"
  tx_pool_exists :: "'p \<Rightarrow> 'a \<Rightarrow> bool"
  chain_store :: "'c \<Rightarrow> 'a \<Rightarrow> code \<times> 'c"
  settings_of :: "'f settings"
  float_ops :: "'f float_arith"
  serialized_size :: "'a \<Rightarrow> size_t"
  signature_operations :: "'a \<Rightarrow> size_t"
  fees :: "'a \<Rightarrow> uint64_t"
  is_dusty :: "'a \<Rightarrow> uint64_t \<Rightarrow> bool"

definition organize_transaction_init :: "'p \<Rightarrow> 'c \<Rightarrow> ('p, 'c, 'a) organize_transaction" where
  "organize_transaction_init p c =
     \<lparr>stopped = True, pool = p, chain = c, events = [], resume = None\<rparr>"

definition organize_transaction_sufficient_fee ::
  "('p, 'c, 'a, 'f) transaction_collaborators \<Rightarrow> 'a \<Rightarrow> bool" where
  "organize_transaction_sufficient_fee env tx =
    (let byte_fee = byte_fee_satoshis (settings_of env);
         sigop_fee = sigop_fee_satoshis (settings_of env);
         fl = float_ops env
     in
       if float_eq_zero fl byte_fee \<and> float_eq_zero fl sigop_fee then True
       else
         let byte = (if float_gt_zero fl byte_fee
                     then float_times_size fl byte_fee (serialized_size env tx)
                     else float_of_zero fl);
             sigop = (if float_gt_zero fl sigop_fee
                      then float_times_size fl sigop_fee (signature_operations env tx)
                      else float_of_zero fl);
             price = max 1 (float_to_uint64 fl (float_plus fl byte sigop));
             paid = fees env tx
         in
           if paid \<ge> price then True else False)"

definition organize_transaction_signal_completion ::
  "code \<Rightarrow> ('p, 'c, 'a) organize_transaction \<Rightarrow> ('p, 'c, 'a) organize_transaction" where
  "organize_transaction_signal_completion ec s = s\<lparr>resume := Some ec\<rparr>"

definition organize_transaction_handle_connect ::
  "('p, 'c, 'a, 'f) transaction_collaborators \<Rightarrow> code \<Rightarrow> 'a \<Rightarrow>
   (code \<Rightarrow> ('p, 'c, 'a) organize_transaction \<Rightarrow> ('p, 'c, 'a) organize_transaction) \<Rightarrow>
   ('p, 'c, 'a) organize_transaction \<Rightarrow> ('p, 'c, 'a) organize_transaction" where
  "organize_transaction_handle_connect env ec tx handler s =
    (if stopped s then handler service_stopped s
     else if ec \<noteq> success then handler ec s
     else
       let (error_code, c) = chain_store env (chain s) tx;
           s1 = emit (Store tx) (s\<lparr>chain := c\<rparr>)
       in
         if error_code \<noteq> success then handler error_code (emit (Log_fatal error_code) s1)
         else handler error_code s1)"

definition organize_transaction_handle_accept ::
  "('p, 'c, 'a, 'f) transaction_collaborators \<Rightarrow> control list \<Rightarrow> code \<Rightarrow> 'a \<Rightarrow>
   (code \<Rightarrow> ('p, 'c, 'a) organize_transaction \<Rightarrow> ('p, 'c, 'a) organize_transaction) \<Rightarrow>
   ('p, 'c, 'a) organize_transaction \<Rightarrow> ('p, 'c, 'a) organize_transaction" where
  "organize_transaction_handle_accept env during_connect ec tx handler s =
    (if stopped s then handler service_stopped s
     else if ec \<noteq> success then handler ec s
     else if \<not> organize_transaction_sufficient_fee env tx then handler insufficient_fee s
     else if is_dusty env tx (minimum_output_satoshis (settings_of env))
       then handler dusty_transaction s
     else
       let connect_handler = (\<lambda>ec. organize_transaction_handle_connect env ec tx handler);
           ec' = tx_validator_connect env (chain s) tx;
           s1 = run_controls during_connect (emit Connect s)
       in connect_handler ec' s1)"

text \<open>
  \<^verbatim>\<open>organize\<close> waits on the future of \<^verbatim>\<open>resume_\<close>. If the callback chain had set no
  value the wait would not return: the state is then returned as it is, with the lock
  held and no handler call.
\<close>

definition organize_transaction_organize ::
  "('p, 'c, 'a, 'f) transaction_collaborators \<Rightarrow> control list \<Rightarrow> control list \<Rightarrow> 'a \<Rightarrow>
   (code \<Rightarrow> ('p, 'c, 'a) organize_transaction \<Rightarrow> ('p, 'c, 'a) organize_transaction) \<Rightarrow>
   uint64_t \<Rightarrow> ('p, 'c, 'a) organize_transaction \<Rightarrow> ('p, 'c, 'a) organize_transaction" where
  "organize_transaction_organize env during_accept during_connect tx handler max_money s =
    (let error_code = tx_validator_check env tx max_money;
         s1 = emit (Check tx) s
     in
       if error_code \<noteq> success then handler error_code s1
       else
         let s2 = emit Lock_low_priority s1 in
           if stopped s2 then handler service_stopped (emit Unlock_low_priority s2)
           else
             let exists = tx_pool_exists env (pool s2) tx;
                 s3 = emit (Pool_exists tx) s2
             in
               if exists then handler duplicate_transaction (emit Unlock_low_priority s3)
               else
                 let s4 = s3\<lparr>resume := None\<rparr>;
                     complete = organize_transaction_signal_completion;
                     accept_handler =
                       (\<lambda>ec. organize_transaction_handle_accept env during_connect ec tx complete);
                     ec = tx_validator_accept env (chain s4) tx;
                     s5 = accept_handler ec (run_controls during_accept (emit Accept s4))
                 in
                   (case resume s5 of
                      None \<Rightarrow> s5
                    | Some error_code \<Rightarrow> handler error_code (emit Unlock_low_priority s5)))"

section \<open>Observations on an event list\<close>

text \<open>
  The flag that a continuation reads after the given concurrent \<^verbatim>\<open>start()\<close> and
  \<^verbatim>\<open>stop()\<close> calls, from the flag before them.
\<close>

primrec stopped_after :: "control list \<Rightarrow> bool \<Rightarrow> bool" where
  "stopped_after [] b = b"
| "stopped_after (c # cs) b = stopped_after cs (case c of Start \<Rightarrow> False | Stop \<Rightarrow> True)"

text \<open>The codes the caller's handler received, in order.\<close>

primrec handler_calls :: "'a event list \<Rightarrow> code list" where
  "handler_calls [] = []"
| "handler_calls (e # es) = (case e of Handler c \<Rightarrow> c # handler_calls es | _ \<Rightarrow> handler_calls es)"

text \<open>
  \<open>handler_outside_lock held es\<close>: scanning \<open>es\<close> with the prioritized mutex held or
  not at its start, no handler call happens while the mutex is held.
\<close>

primrec handler_outside_lock :: "bool \<Rightarrow> 'a event list \<Rightarrow> bool" where
  "handler_outside_lock held [] = True"
| "handler_outside_lock held (e # es) =
     (case e of
        Lock_high_priority \<Rightarrow> handler_outside_lock True es
      | Lock_low_priority \<Rightarrow> handler_outside_lock True es
      | Unlock_high_priority \<Rightarrow> handler_outside_lock False es
      | Unlock_low_priority \<Rightarrow> handler_outside_lock False es
      | Handler c \<Rightarrow> \<not> held \<and> handler_outside_lock held es
      | _ \<Rightarrow> handler_outside_lock held es)"

text \<open>The mutating fast chain calls of an event list: \<open>reorganize\<close> and \<open>store\<close>.\<close>

primrec fast_chain_writes :: "'a event list \<Rightarrow> 'a event list" where
  "fast_chain_writes [] = []"
| "fast_chain_writes (e # es) =
     (case e of
        Reorganize f hs \<Rightarrow> e # fast_chain_writes es
      | Store t \<Rightarrow> e # fast_chain_writes es
      | _ \<Rightarrow> fast_chain_writes es)"

section \<open>Concrete collaborators\<close>

text \<open>
  Instances of the collaborators on which the organizers are evaluated. Headers and
  transactions are numbers, a pool and a chain are lists of them. The validators and
  the store answer with the codes given as arguments; \<open>reorganize\<close> replaces the chain
  above the fork height by the branch and \<open>store\<close> appends the transaction, whatever
  code they return.
\<close>

definition demo_branch :: "nat header_branch" where
  "demo_branch = \<lparr>branch_empty = False, branch_top = 6, branch_top_height = 3,
     branch_height = 1, branch_work = 20, branch_fork_point = (0, 1), branch_headers = [5, 6]\<rparr>"

definition demo_empty_branch :: "nat header_branch" where
  "demo_empty_branch = \<lparr>branch_empty = True, branch_top = 0, branch_top_height = 0,
     branch_height = 0, branch_work = 0, branch_fork_point = (0, 0), branch_headers = []\<rparr>"

definition demo_header_env ::
  "code \<Rightarrow> nat header_branch \<Rightarrow> code \<Rightarrow> uint256_t option \<Rightarrow> code \<Rightarrow>
   (nat list, nat list, nat) header_collaborators" where
  "demo_header_env check_code branch accept_code required reorganize_code =
    \<lparr>validator_check = (\<lambda>h. check_code),
     validator_accept = (\<lambda>c b. accept_code),
     pool_get_branch = (\<lambda>p c h. branch),
     pool_add = (\<lambda>p h n. p @ [h]),
     chain_get_work = (\<lambda>c overcome above candidate. required),
     chain_reorganize = (\<lambda>c fork hs. (reorganize_code, take (unat (snd fork)) c @ hs))\<rparr>"

text \<open>
  Single precision arithmetic (IEEE 754 binary32, round to nearest, ties to even, every
  operation rounded on its own), on the rational values of the floats. A positive value
  is scaled by powers of two until it lies between \<open>2^23\<close> and \<open>2^24\<close> (or the exponent of
  the subnormal numbers is reached) and is rounded to an integer there. Values that
  binary32 turns into infinity (from \<open>2^128\<close>) are not treated apart: every statement
  below that reads a price assumes a sum below \<open>2^64\<close>.
\<close>

definition round_half_even :: "rat \<Rightarrow> int" where
  "round_half_even q =
     (let f = \<lfloor>q\<rfloor>; r = q - of_int f
      in if r < 1 / 2 then f else if 1 / 2 < r then f + 1 else if even f then f else f + 1)"

function scale_down :: "rat \<Rightarrow> int \<Rightarrow> rat \<times> int" where
  "scale_down x e = (if 16777216 \<le> x then scale_down (x / 2) (e + 1) else (x, e))"
  by pat_completeness auto
termination
proof (relation "measure (\<lambda>(x, e). nat \<lfloor>x\<rfloor>)")
  show "wf (measure (\<lambda>(x, e). nat \<lfloor>x\<rfloor>))" by simp
next
  fix x :: rat and e :: int
  assume big: "16777216 \<le> x"
  have "of_int \<lfloor>x / 2\<rfloor> \<le> x / 2" by (rule of_int_floor_le)
  also have "\<dots> < x - 1" using big by simp
  also have "\<dots> < of_int \<lfloor>x\<rfloor>" by linarith
  finally have "\<lfloor>x / 2\<rfloor> < \<lfloor>x\<rfloor>" by simp
  moreover have "0 < \<lfloor>x\<rfloor>" using big by simp
  ultimately show "((x / 2, e + 1), (x, e)) \<in> measure (\<lambda>(x, e). nat \<lfloor>x\<rfloor>)" by simp
qed

function scale_up :: "rat \<Rightarrow> int \<Rightarrow> rat \<times> int" where
  "scale_up x e = (if x < 8388608 \<and> - 149 < e then scale_up (2 * x) (e - 1) else (x, e))"
  by pat_completeness auto
termination
  by (relation "measure (\<lambda>(x, e). nat (e + 149))") auto

declare scale_down.simps [simp del] scale_up.simps [simp del]

definition pow2 :: "int \<Rightarrow> rat" where
  "pow2 k = (if 0 \<le> k then 2 ^ nat k else 1 / 2 ^ nat (- k))"

definition round_magnitude :: "rat \<Rightarrow> rat" where
  "round_magnitude x =
     (if x = 0 then 0
      else let (y, e) = scale_down x 0; (z, k) = scale_up y e
           in of_int (round_half_even z) * pow2 k)"

definition round_binary32 :: "rat \<Rightarrow> rat" where
  "round_binary32 x = (if x < 0 then - round_magnitude (- x) else round_magnitude x)"

text \<open>
  The cast to \<^verbatim>\<open>uint64_t\<close> truncates toward zero. For a value that does not fit, the
  cast is undefined in the source language and is left unspecified here.
\<close>

definition cast_uint64 :: "rat \<Rightarrow> uint64_t" where
  "cast_uint64 x =
     (let t = (if 0 \<le> x then \<lfloor>x\<rfloor> else \<lceil>x\<rceil>)
      in if 0 \<le> t \<and> t < 2 ^ 64 then word_of_int t else undefined)"

text \<open>
  The float operations of \<^verbatim>\<open>sufficient_fee\<close> in single precision: the \<^verbatim>\<open>size_t\<close> operand
  is converted to float, then the product is rounded; the sum is rounded.
\<close>

definition binary32 :: "rat float_arith" where
  "binary32 =
    \<lparr>float_eq_zero = (\<lambda>x. x = 0),
     float_gt_zero = (\<lambda>x. 0 < x),
     float_times_size = (\<lambda>x n. round_binary32 (x * round_binary32 (of_nat (unat n)))),
     float_of_zero = 0,
     float_plus = (\<lambda>x y. round_binary32 (x + y)),
     float_to_uint64 = cast_uint64\<rparr>"

definition demo_transaction_env ::
  "code \<Rightarrow> code \<Rightarrow> code \<Rightarrow> code \<Rightarrow> (nat list, nat list, nat, rat) transaction_collaborators" where
  "demo_transaction_env check_code accept_code connect_code store_code =
    \<lparr>tx_validator_check = (\<lambda>t m. check_code),
     tx_validator_accept = (\<lambda>c t. accept_code),
     tx_validator_connect = (\<lambda>c t. connect_code),
     tx_pool_exists = (\<lambda>p t. t \<in> set p),
     chain_store = (\<lambda>c t. (store_code, c @ [t])),
     settings_of = \<lparr>byte_fee_satoshis = 0, sigop_fee_satoshis = 0, minimum_output_satoshis = 546\<rparr>,
     float_ops = binary32,
     serialized_size = (\<lambda>t. 100),
     signature_operations = (\<lambda>t. 2),
     fees = (\<lambda>t. 0),
     is_dusty = (\<lambda>t m. False)\<rparr>"

text \<open>
  The same collaborators with the given fee settings and a transaction of the given
  size and number of signature operations that pays \<open>paid\<close>.
\<close>

definition demo_fee_env ::
  "rat \<Rightarrow> rat \<Rightarrow> size_t \<Rightarrow> size_t \<Rightarrow> uint64_t \<Rightarrow>
   (nat list, nat list, nat, rat) transaction_collaborators" where
  "demo_fee_env byte_fee sigop_fee bytes sigops paid =
    (demo_transaction_env success success success success)
      \<lparr>settings_of := \<lparr>byte_fee_satoshis = byte_fee, sigop_fee_satoshis = sigop_fee,
         minimum_output_satoshis = 546\<rparr>,
       serialized_size := (\<lambda>t. bytes),
       signature_operations := (\<lambda>t. sigops),
       fees := (\<lambda>t. paid)\<rparr>"

section \<open>The price of a transaction in words\<close>

text \<open>
  The price as claim C7 states it, on rational fee values: the floor of the sum of the
  two products, and at least one satoshi; a transaction is accepted when both fees are
  zero or when it pays the price.
\<close>

definition claimed_price :: "('p, 'c, 'a, rat) transaction_collaborators \<Rightarrow> 'a \<Rightarrow> int" where
  "claimed_price env tx =
     max 1 \<lfloor>byte_fee_satoshis (settings_of env) * of_nat (unat (serialized_size env tx)) +
            sigop_fee_satoshis (settings_of env) * of_nat (unat (signature_operations env tx))\<rfloor>"

definition claimed_sufficient_fee :: "('p, 'c, 'a, rat) transaction_collaborators \<Rightarrow> 'a \<Rightarrow> bool" where
  "claimed_sufficient_fee env tx =
     (if byte_fee_satoshis (settings_of env) = 0 \<and> sigop_fee_satoshis (settings_of env) = 0
      then True
      else claimed_price env tx \<le> uint (fees env tx))"

text \<open>
  The same sum evaluated in single precision, as the source does, and the price it
  gives.
\<close>

definition single_precision_sum :: "('p, 'c, 'a, rat) transaction_collaborators \<Rightarrow> 'a \<Rightarrow> rat" where
  "single_precision_sum env tx =
     round_binary32
       (round_binary32 (byte_fee_satoshis (settings_of env) *
          round_binary32 (of_nat (unat (serialized_size env tx)))) +
        round_binary32 (sigop_fee_satoshis (settings_of env) *
          round_binary32 (of_nat (unat (signature_operations env tx)))))"

definition single_precision_price :: "('p, 'c, 'a, rat) transaction_collaborators \<Rightarrow> 'a \<Rightarrow> int" where
  "single_precision_price env tx = max 1 \<lfloor>single_precision_sum env tx\<rfloor>"

section \<open>Auxiliary facts\<close>

lemma run_controls_stopped_after:
  "run_controls cs s = s\<lparr>stopped := stopped_after cs (stopped s)\<rparr>"
  by (induction cs arbitrary: s) (simp_all add: start_def stop_def split: control.splits)

lemmas header_defs = header_organizer_organize_def header_organizer_handle_accept_def
  header_organizer_handle_complete_def notify_def emit_def run_controls_stopped_after Let_def

lemmas tx_defs = organize_transaction_organize_def organize_transaction_handle_accept_def
  organize_transaction_handle_connect_def organize_transaction_signal_completion_def
  notify_def emit_def run_controls_stopped_after Let_def

lemmas demo_defs = demo_header_env_def demo_transaction_env_def demo_branch_def
  demo_empty_branch_def header_organizer_def organize_transaction_init_def start_def stop_def
  binary32_def demo_fee_env_def

text \<open>Facts about single precision rounding and about the fee test in it.\<close>

lemma floor_numeral_quotient:
  "\<lfloor>numeral a / numeral b :: rat\<rfloor> = numeral a div numeral b"
  using floor_divide_of_int_eq [of "numeral a" "numeral b", where ?'a = rat] by simp

lemmas binary32_eval = round_binary32_def round_magnitude_def scale_down.simps scale_up.simps
  round_half_even_def pow2_def Let_def floor_numeral_quotient

lemma round_half_even_of_int: "round_half_even (of_int m) = m"
  by (simp add: round_half_even_def)

lemma round_half_even_nonneg: "0 \<le> q \<Longrightarrow> 0 \<le> round_half_even q"
  by (simp add: round_half_even_def Let_def)

lemma scale_down_nonneg: "0 \<le> x \<Longrightarrow> 0 \<le> fst (scale_down x e)"
proof (induction x e rule: scale_down.induct)
  case (1 x e)
  then show ?case by (subst scale_down.simps) simp
qed

lemma scale_up_nonneg: "0 \<le> x \<Longrightarrow> 0 \<le> fst (scale_up x e)"
proof (induction x e rule: scale_up.induct)
  case (1 x e)
  then show ?case by (subst scale_up.simps) simp
qed

lemma pow2_pos: "0 < pow2 k"
  by (simp add: pow2_def)

lemma round_magnitude_nonneg: "0 \<le> x \<Longrightarrow> 0 \<le> round_magnitude x"
proof -
  assume x: "0 \<le> x"
  obtain y e where d: "scale_down x 0 = (y, e)" by (cases "scale_down x 0")
  obtain z k where u: "scale_up y e = (z, k)" by (cases "scale_up y e")
  from x d have "0 \<le> y" using scale_down_nonneg [of x 0] by simp
  with u have "0 \<le> z" using scale_up_nonneg [of y e] by simp
  then have "0 \<le> round_half_even z" by (rule round_half_even_nonneg)
  with pow2_pos [of k] have "0 \<le> rat_of_int (round_half_even z) * pow2 k" by simp
  with d u show ?thesis by (simp add: round_magnitude_def)
qed

lemma round_binary32_nonneg: "0 \<le> x \<Longrightarrow> 0 \<le> round_binary32 x"
  by (simp add: round_binary32_def round_magnitude_nonneg)

lemma round_binary32_zero: "round_binary32 0 = 0"
  by (simp add: round_binary32_def round_magnitude_def)

lemma scale_up_shape: "\<exists>k. scale_up x e = (x * 2 ^ k, e - int k)"
proof (induction x e rule: scale_up.induct)
  case (1 x e)
  show ?case
  proof (cases "x < 8388608 \<and> - 149 < e")
    case True
    with 1 obtain k where "scale_up (2 * x) (e - 1) = (2 * x * 2 ^ k, e - 1 - int k)" by blast
    with True have "scale_up x e = (x * 2 ^ Suc k, e - int (Suc k))"
      by (subst scale_up.simps) simp
    then show ?thesis by blast
  next
    case False
    then have "scale_up x e = (x * 2 ^ 0, e - int 0)"
      by (subst scale_up.simps) auto
    then show ?thesis by blast
  qed
qed

lemma round_binary32_of_nat:
  assumes "n < 16777216"
  shows "round_binary32 (of_nat n) = of_nat n"
proof (cases "n = 0")
  case True
  then show ?thesis by (simp add: round_binary32_zero)
next
  case False
  from assms have d: "scale_down (of_nat n) 0 = (of_nat n, 0)"
    by (subst scale_down.simps) simp
  obtain k where u: "scale_up (of_nat n) 0 = (of_nat n * 2 ^ k, 0 - int k)"
    using scale_up_shape [of "of_nat n" 0] by blast
  have "rat_of_nat n * 2 ^ k = rat_of_int (int n * 2 ^ k)" by simp
  then have r: "round_half_even (rat_of_nat n * 2 ^ k) = int n * 2 ^ k"
    by (simp only: round_half_even_of_int)
  have p: "pow2 (0 - int k) = 1 / 2 ^ k"
    by (cases "k = 0") (simp_all add: pow2_def)
  from False d u r p show ?thesis
    by (simp add: round_binary32_def round_magnitude_def)
qed

lemma uint_max_one: "uint (max 1 (w :: uint64_t)) = max 1 (uint w)"
  by (simp add: max_def word_le_def)

lemma cast_uint64_floor:
  assumes "0 \<le> x" and "x < 2 ^ 64"
  shows "uint (cast_uint64 x) = \<lfloor>x\<rfloor>"
proof -
  from assms have "0 \<le> \<lfloor>x\<rfloor>" by simp
  moreover from assms have "\<lfloor>x\<rfloor> < 2 ^ 64" by (simp add: floor_less_iff)
  ultimately show ?thesis using assms
    by (simp add: cast_uint64_def Let_def uint_word_of_int take_bit_int_eq_self)
qed


lemma sufficient_fee_binary32:
  assumes "float_ops env = binary32"
    and "0 \<le> byte_fee_satoshis (settings_of env)"
    and "0 \<le> sigop_fee_satoshis (settings_of env)"
  shows "organize_transaction_sufficient_fee env tx =
     (byte_fee_satoshis (settings_of env) = 0 \<and> sigop_fee_satoshis (settings_of env) = 0 \<or>
      max 1 (cast_uint64 (single_precision_sum env tx)) \<le> fees env tx)"
  using assms
  by (cases "byte_fee_satoshis (settings_of env) = 0"; cases "sigop_fee_satoshis (settings_of env) = 0")
    (simp_all add: organize_transaction_sufficient_fee_def binary32_def single_precision_sum_def
      Let_def round_binary32_zero del: of_nat_unat)

lemma single_precision_sum_nonneg:
  assumes "0 \<le> byte_fee_satoshis (settings_of env)"
    and "0 \<le> sigop_fee_satoshis (settings_of env)"
  shows "0 \<le> single_precision_sum env tx"
proof -
  have "0 \<le> byte_fee_satoshis (settings_of env) *
      round_binary32 (of_nat (unat (serialized_size env tx)))"
    using assms(1) by (intro mult_nonneg_nonneg round_binary32_nonneg) (simp_all del: of_nat_unat)
  moreover have "0 \<le> sigop_fee_satoshis (settings_of env) *
      round_binary32 (of_nat (unat (signature_operations env tx)))"
    using assms(2) by (intro mult_nonneg_nonneg round_binary32_nonneg) (simp_all del: of_nat_unat)
  ultimately show ?thesis
    unfolding single_precision_sum_def
    by (intro round_binary32_nonneg add_nonneg_nonneg)
qed

lemma exact_product:
  assumes "a * n < 16777216"
  shows "round_binary32 (of_nat a * round_binary32 (of_nat n)) = of_nat (a * n)"
proof (cases "a = 0")
  case True
  then show ?thesis by (simp add: round_binary32_zero)
next
  case False
  then have "1 * n \<le> a * n" by (intro mult_le_mono1) simp
  with assms have "n < 16777216" by linarith
  then have "round_binary32 (of_nat n) = of_nat n" by (rule round_binary32_of_nat)
  moreover have "round_binary32 (of_nat (a * n)) = of_nat (a * n)"
    using assms by (rule round_binary32_of_nat)
  ultimately show ?thesis by simp
qed

lemma single_precision_sum_exact:
  assumes "byte_fee_satoshis (settings_of env) = of_nat a"
    and "sigop_fee_satoshis (settings_of env) = of_nat b"
    and "a * unat (serialized_size env tx) + b * unat (signature_operations env tx) < 16777216"
  shows "single_precision_sum env tx =
     of_nat (a * unat (serialized_size env tx) + b * unat (signature_operations env tx))"
proof -
  from assms(3) have "a * unat (serialized_size env tx) < 16777216"
    and "b * unat (signature_operations env tx) < 16777216" by simp_all
  then have "round_binary32 (of_nat a * round_binary32 (of_nat (unat (serialized_size env tx)))) =
      of_nat (a * unat (serialized_size env tx))"
    and "round_binary32 (of_nat b * round_binary32 (of_nat (unat (signature_operations env tx)))) =
      of_nat (b * unat (signature_operations env tx))"
    by (simp_all add: exact_product del: of_nat_unat)
  moreover have "round_binary32
      (of_nat (a * unat (serialized_size env tx) + b * unat (signature_operations env tx))) =
      of_nat (a * unat (serialized_size env tx) + b * unat (signature_operations env tx))"
    using assms(3) by (rule round_binary32_of_nat)
  ultimately show ?thesis
    using assms(1,2) by (simp add: single_precision_sum_def del: of_nat_unat)
qed

lemma binary32_ops:
  "float_eq_zero binary32 x = (x = 0)"
  "float_gt_zero binary32 x = (0 < x)"
  "float_times_size binary32 x n = round_binary32 (x * round_binary32 (of_nat (unat n)))"
  "float_of_zero binary32 = 0"
  "float_plus binary32 x y = round_binary32 (x + y)"
  "float_to_uint64 binary32 = cast_uint64"
  by (simp_all add: binary32_def)

lemma demo_fee_env_fields:
  "float_ops (demo_fee_env byte_fee sigop_fee bytes sigops paid) = binary32"
  "byte_fee_satoshis (settings_of (demo_fee_env byte_fee sigop_fee bytes sigops paid)) = byte_fee"
  "sigop_fee_satoshis (settings_of (demo_fee_env byte_fee sigop_fee bytes sigops paid)) = sigop_fee"
  "serialized_size (demo_fee_env byte_fee sigop_fee bytes sigops paid) t = bytes"
  "signature_operations (demo_fee_env byte_fee sigop_fee bytes sigops paid) t = sigops"
  "fees (demo_fee_env byte_fee sigop_fee bytes sigops paid) t = paid"
  by (simp_all add: demo_fee_env_def demo_transaction_env_def)

section \<open>The work comparison of the header organizer\<close>

text \<open>
  Claim C1. A branch survives the accept step when \<^verbatim>\<open>handle_accept\<close> passes its two guards
  (the organizer is not stopped when the continuation runs and the validator's code is
  success) and \<^verbatim>\<open>get_work\<close> yields the required work. For every such branch,
  \<^verbatim>\<open>organize\<close> calls \<open>reorganize\<close> with the fork point and the headers of the branch
  if and only if the work of the branch is strictly greater than the required work.
  Otherwise, equality included, the only pool change is \<open>add\<close> of the top of the branch
  at its top height, the chain is untouched and the handler receives
  \<open>insufficient_work\<close>. The events are those of one call, in order.
\<close>

theorem organize_commits_iff_more_work:
  assumes "events s = []"
    and "validator_check env header = success"
    and "branch = pool_get_branch env (pool s) (chain s) header"
    and "\<not> branch_empty branch"
    and "\<not> stopped (run_controls during_accept s)"
    and "validator_accept env (chain s) branch = success"
    and "chain_get_work env (chain s) (branch_work branch) (branch_height branch) True = Some required_work"
    and "s' = header_organizer_organize env during_accept header notify s"
    and "written = chain_reorganize env (chain s) (branch_fork_point branch) (branch_headers branch)"
  shows "((Reorganize (branch_fork_point branch) (branch_headers branch) \<in> set (events s')) =
            (required_work < branch_work branch)) \<and>
         (if branch_work branch \<le> required_work
          then events s' = [Check header, Lock_high_priority, Get_branch header, Accept,
                  Get_work (branch_work branch) (branch_height branch),
                  Pool_add (branch_top branch) (branch_top_height branch),
                  Unlock_high_priority, Handler insufficient_work] \<and>
               pool s' = pool_add env (pool s) (branch_top branch) (branch_top_height branch) \<and>
               chain s' = chain s
          else events s' = [Check header, Lock_high_priority, Get_branch header, Accept,
                  Get_work (branch_work branch) (branch_height branch),
                  Reorganize (branch_fork_point branch) (branch_headers branch)] @
                  (if fst written \<noteq> success then [Log_fatal (fst written)] else []) @
                  [Unlock_high_priority, Handler (fst written)] \<and>
               pool s' = pool s \<and>
               chain s' = snd written)"
proof (cases "branch_work branch \<le> required_work")
  case True
  then have "\<not> required_work < branch_work branch" by simp
  with True assms(1,2,4,5,6,7) show ?thesis
    unfolding assms(3) assms(8)
    by (simp add: header_defs)
next
  case False
  then have "required_work < branch_work branch" by simp
  with False assms(1,2,4,5,6,7) show ?thesis
    unfolding assms(3) assms(8) assms(9)
    by (simp add: header_defs split: prod.splits)
qed

text \<open>
  The theorem at a branch of work 20 above fork height 1: against required work 20 the
  top is pooled and the chain stays; against required work 19 the branch is written.
\<close>

theorem organize_commits_iff_more_work_witness:
  "events (header_organizer_organize (demo_header_env success demo_branch success (Some 20) success)
      [] 6 notify (start (header_organizer [] [1, 2]))) =
     [Check 6, Lock_high_priority, Get_branch 6, Accept, Get_work 20 1, Pool_add 6 3,
      Unlock_high_priority, Handler insufficient_work] \<and>
   pool (header_organizer_organize (demo_header_env success demo_branch success (Some 20) success)
      [] 6 notify (start (header_organizer [] [1, 2]))) = [6] \<and>
   chain (header_organizer_organize (demo_header_env success demo_branch success (Some 20) success)
      [] 6 notify (start (header_organizer [] [1, 2]))) = [1, 2] \<and>
   events (header_organizer_organize (demo_header_env success demo_branch success (Some 19) success)
      [] 6 notify (start (header_organizer [] [1, 2]))) =
     [Check 6, Lock_high_priority, Get_branch 6, Accept, Get_work 20 1, Reorganize (0, 1) [5, 6],
      Unlock_high_priority, Handler success] \<and>
   chain (header_organizer_organize (demo_header_env success demo_branch success (Some 19) success)
      [] 6 notify (start (header_organizer [] [1, 2]))) = [1, 5, 6]"
  using organize_commits_iff_more_work [where env = "demo_header_env success demo_branch success (Some 20) success"
      and header = 6 and during_accept = "[]" and s = "start (header_organizer [] [1, 2])"
      and branch = demo_branch and required_work = 20
      and s' = "header_organizer_organize (demo_header_env success demo_branch success (Some 20) success)
          [] 6 notify (start (header_organizer [] [1, 2]))"
      and written = "(success, [1, 5, 6])"]
    organize_commits_iff_more_work [where env = "demo_header_env success demo_branch success (Some 19) success"
      and header = 6 and during_accept = "[]" and s = "start (header_organizer [] [1, 2])"
      and branch = demo_branch and required_work = 19
      and s' = "header_organizer_organize (demo_header_env success demo_branch success (Some 19) success)
          [] 6 notify (start (header_organizer [] [1, 2]))"
      and written = "(success, [1, 5, 6])"]
  by (simp add: demo_defs)

section \<open>The empty branch\<close>

text \<open>
  Claim C2. When the header passes the check and \<open>get_branch\<close> returns the empty branch,
  \<^verbatim>\<open>organize\<close> releases the high priority lock and calls the handler with
  \<open>duplicate_block\<close>, and that is all it does: the validator's \<open>accept\<close> is not called,
  no work is read or compared, and the pool, the chain and the flag are as before.
\<close>

theorem empty_branch_returns_duplicate_block:
  assumes "validator_check env header = success"
    and "branch_empty (pool_get_branch env (pool s) (chain s) header)"
  shows "header_organizer_organize env during_accept header notify s =
     s\<lparr>events := events s @ [Check header, Lock_high_priority, Get_branch header,
          Unlock_high_priority, Handler duplicate_block]\<rparr>"
  using assms by (simp add: header_defs)

text \<open>
The theorem on a started organizer whose chain already holds header 2.
\<close>

theorem empty_branch_returns_duplicate_block_witness:
  "header_organizer_organize (demo_header_env success demo_empty_branch success (Some 0) success)
      [] 2 notify (start (header_organizer [] [1, 2])) =
     \<lparr>stopped = False, pool = [], chain = [1, 2],
      events = [Check 2, Lock_high_priority, Get_branch 2, Unlock_high_priority,
        Handler duplicate_block]\<rparr>"
  using empty_branch_returns_duplicate_block [where
      env = "demo_header_env success demo_empty_branch success (Some 0) success"
      and header = 2 and during_accept = "[]" and s = "start (header_organizer [] [1, 2])"]
  by (simp add: demo_defs)

section \<open>The chain on the paths that report an error\<close>

text \<open>
  The two organizers apart: a call that starts from an empty event list and hands a code
  other than success to the handler either made no fast chain write and left the chain
  as it was, or made exactly one, and the code is the one this write returned.
\<close>

lemma header_rejection_keeps_chain:
  "events s = [] \<and> c \<noteq> success \<and>
    Handler c \<in> set (events (header_organizer_organize env during_accept header notify s)) \<longrightarrow>
      (fast_chain_writes (events (header_organizer_organize env during_accept header notify s)) = [] \<and>
       chain (header_organizer_organize env during_accept header notify s) = chain s) \<or>
      (fast_chain_writes (events (header_organizer_organize env during_accept header notify s)) =
         [Reorganize (branch_fork_point (pool_get_branch env (pool s) (chain s) header))
            (branch_headers (pool_get_branch env (pool s) (chain s) header))] \<and>
       Log_fatal c \<in> set (events (header_organizer_organize env during_accept header notify s)) \<and>
       chain_reorganize env (chain s)
           (branch_fork_point (pool_get_branch env (pool s) (chain s) header))
           (branch_headers (pool_get_branch env (pool s) (chain s) header)) =
         (c, chain (header_organizer_organize env during_accept header notify s)))"
  by (auto simp add: header_defs split: option.splits prod.splits)

lemma transaction_rejection_keeps_chain:
   "events st = [] \<and> c' \<noteq> success \<and>
    Handler c' \<in> set (events (organize_transaction_organize envt da dc tx notify max_money st)) \<longrightarrow>
      (fast_chain_writes (events (organize_transaction_organize envt da dc tx notify max_money st)) = [] \<and>
       chain (organize_transaction_organize envt da dc tx notify max_money st) = chain st) \<or>
      (fast_chain_writes (events (organize_transaction_organize envt da dc tx notify max_money st)) = [Store tx] \<and>
       Log_fatal c' \<in> set (events (organize_transaction_organize envt da dc tx notify max_money st)) \<and>
       chain_store envt (chain st) tx =
         (c', chain (organize_transaction_organize envt da dc tx notify max_money st)))"
  by (auto simp add: tx_defs split: option.splits prod.splits)

text \<open>
  Claim C3, as amended. For every header or transaction \<^verbatim>\<open>organize\<close> call whose handler
  receives a code other than success, either no mutating fast chain operation was called
  and the chain is identical to the chain before the call, or the code is the one that
  the single \<open>reorganize\<close> (or \<open>store\<close>) call itself returned, after the fatal log entry,
  and the chain is the one this failed call left.
\<close>

theorem non_success_keeps_chain_unless_commit_failed:
  "(events s = [] \<and> c \<noteq> success \<and>
    Handler c \<in> set (events (header_organizer_organize env during_accept header notify s)) \<longrightarrow>
      (fast_chain_writes (events (header_organizer_organize env during_accept header notify s)) = [] \<and>
       chain (header_organizer_organize env during_accept header notify s) = chain s) \<or>
      (fast_chain_writes (events (header_organizer_organize env during_accept header notify s)) =
         [Reorganize (branch_fork_point (pool_get_branch env (pool s) (chain s) header))
            (branch_headers (pool_get_branch env (pool s) (chain s) header))] \<and>
       Log_fatal c \<in> set (events (header_organizer_organize env during_accept header notify s)) \<and>
       chain_reorganize env (chain s)
           (branch_fork_point (pool_get_branch env (pool s) (chain s) header))
           (branch_headers (pool_get_branch env (pool s) (chain s) header)) =
         (c, chain (header_organizer_organize env during_accept header notify s)))) \<and>
   (events st = [] \<and> c' \<noteq> success \<and>
    Handler c' \<in> set (events (organize_transaction_organize envt da dc tx notify max_money st)) \<longrightarrow>
      (fast_chain_writes (events (organize_transaction_organize envt da dc tx notify max_money st)) = [] \<and>
       chain (organize_transaction_organize envt da dc tx notify max_money st) = chain st) \<or>
      (fast_chain_writes (events (organize_transaction_organize envt da dc tx notify max_money st)) = [Store tx] \<and>
       Log_fatal c' \<in> set (events (organize_transaction_organize envt da dc tx notify max_money st)) \<and>
       chain_store envt (chain st) tx =
         (c', chain (organize_transaction_organize envt da dc tx notify max_money st))))"
  using header_rejection_keeps_chain [of s c env during_accept header]
    transaction_rejection_keeps_chain [of st c' envt da dc tx max_money]
  by blast

text \<open>
  The theorem on a branch of insufficient work and on a transaction that fails to
  connect: the first alternative holds in both.
\<close>

theorem non_success_keeps_chain_unless_commit_failed_witness:
  "Handler insufficient_work \<in> set (events (header_organizer_organize
      (demo_header_env success demo_branch success (Some 20) success)
      [] 6 notify (start (header_organizer [] [1, 2])))) \<and>
   fast_chain_writes (events (header_organizer_organize
      (demo_header_env success demo_branch success (Some 20) success)
      [] 6 notify (start (header_organizer [] [1, 2])))) = [] \<and>
   chain (header_organizer_organize
      (demo_header_env success demo_branch success (Some 20) success)
      [] 6 notify (start (header_organizer [] [1, 2]))) = [1, 2] \<and>
   Handler (other_error 4) \<in> set (events (organize_transaction_organize
      (demo_transaction_env success success (other_error 4) success)
      [] [] 7 notify 0 (start (organize_transaction_init [] [1, 2])))) \<and>
   fast_chain_writes (events (organize_transaction_organize
      (demo_transaction_env success success (other_error 4) success)
      [] [] 7 notify 0 (start (organize_transaction_init [] [1, 2])))) = [] \<and>
   chain (organize_transaction_organize
      (demo_transaction_env success success (other_error 4) success)
      [] [] 7 notify 0 (start (organize_transaction_init [] [1, 2]))) = [1, 2]"
proof -
  let ?h = "header_organizer_organize
      (demo_header_env success demo_branch success (Some 20) success)
      [] 6 notify (start (header_organizer [] [1, 2]))"
  let ?t = "organize_transaction_organize
      (demo_transaction_env success success (other_error 4) success)
      [] [] 7 notify 0 (start (organize_transaction_init [] [1, 2]))"
  have eh: "events ?h = [Check 6, Lock_high_priority, Get_branch 6, Accept, Get_work 20 1,
      Pool_add 6 3, Unlock_high_priority, Handler insufficient_work]"
    by (simp add: header_defs demo_defs)
  have et: "events ?t = [Check 7, Lock_low_priority, Pool_exists 7, Accept, Connect,
      Unlock_low_priority, Handler (other_error 4)]"
    by (simp add: tx_defs demo_defs organize_transaction_sufficient_fee_def)
  have hh: "Handler insufficient_work \<in> set (events ?h)" unfolding eh by simp
  have ht: "Handler (other_error 4) \<in> set (events ?t)" unfolding et by simp
  have lh: "Log_fatal insufficient_work \<notin> set (events ?h)" unfolding eh by simp
  have lt: "Log_fatal (other_error 4) \<notin> set (events ?t)" unfolding et by simp
  have pre_h: "events (start (header_organizer [] [1, 2]) :: (nat list, nat list, nat) organizer) = []"
    by (simp add: demo_defs)
  have pre_t: "events (start (organize_transaction_init [] [1, 2]) :: (nat list, nat list, nat) organize_transaction) = []"
    by (simp add: demo_defs)
  have ch: "chain (start (header_organizer [] [1, 2]) :: (nat list, nat list, nat) organizer) = [1, 2]"
    by (simp add: demo_defs)
  have ct: "chain (start (organize_transaction_init [] [1, 2]) :: (nat list, nat list, nat) organize_transaction) = [1, 2]"
    by (simp add: demo_defs)
  from non_success_keeps_chain_unless_commit_failed [where
      env = "demo_header_env success demo_branch success (Some 20) success"
      and header = 6 and during_accept = "[]" and s = "start (header_organizer [] [1, 2])"
      and c = insufficient_work
      and envt = "demo_transaction_env success success (other_error 4) success"
      and da = "[]" and dc = "[]" and tx = 7 and max_money = 0
      and st = "start (organize_transaction_init [] [1, 2])" and c' = "other_error 4"]
    hh ht lh lt pre_h pre_t ch ct
  show ?thesis by simp
qed

text \<open>
  Claim C3 as stated fails on a commit failure. The source calls \<open>reorganize\<close> first and
  looks at its code afterwards (\<^verbatim>\<open>Failure writing header to store, is now corrupted\<close>):
  with a store that has replaced the headers above the fork point when it reports
  \<open>other_error 3\<close>, the handler receives that code and the chain has changed.
\<close>

theorem failed_reorganize_changes_chain:
  "handler_calls (events (header_organizer_organize
      (demo_header_env success demo_branch success (Some 19) (other_error 3))
      [] 6 notify (start (header_organizer [] [1, 2])))) = [other_error 3] \<and>
   chain (start (header_organizer [] [1, 2]) :: (nat list, nat list, nat) organizer) = [1, 2] \<and>
   chain (header_organizer_organize
      (demo_header_env success demo_branch success (Some 19) (other_error 3))
      [] 6 notify (start (header_organizer [] [1, 2]))) = [1, 5, 6]"
  by (simp add: header_defs demo_defs)

text \<open>
  When the store is atomic, that is, a \<open>reorganize\<close> or \<open>store\<close> that reports an error
  leaves the chain as it found it, every call whose handler receives a code other than
  success leaves the chain as it was.
\<close>

theorem atomic_store_keeps_chain_on_every_error:
  "((\<forall>c f hs. fst (chain_reorganize env c f hs) \<noteq> success \<longrightarrow>
        snd (chain_reorganize env c f hs) = c) \<and>
    events s = [] \<and> ec \<noteq> success \<and>
    Handler ec \<in> set (events (header_organizer_organize env during_accept header notify s)) \<longrightarrow>
      chain (header_organizer_organize env during_accept header notify s) = chain s) \<and>
   ((\<forall>c t. fst (chain_store envt c t) \<noteq> success \<longrightarrow> snd (chain_store envt c t) = c) \<and>
    events st = [] \<and> ec' \<noteq> success \<and>
    Handler ec' \<in> set (events (organize_transaction_organize envt da dc tx notify max_money st)) \<longrightarrow>
      chain (organize_transaction_organize envt da dc tx notify max_money st) = chain st)"
proof (intro conjI impI)
  assume a: "(\<forall>c f hs. fst (chain_reorganize env c f hs) \<noteq> success \<longrightarrow>
        snd (chain_reorganize env c f hs) = c) \<and>
    events s = [] \<and> ec \<noteq> success \<and>
    Handler ec \<in> set (events (header_organizer_organize env during_accept header notify s))"
  let ?b = "pool_get_branch env (pool s) (chain s) header"
  from a header_rejection_keeps_chain [of s ec env during_accept header]
  consider "chain (header_organizer_organize env during_accept header notify s) = chain s"
    | "chain_reorganize env (chain s) (branch_fork_point ?b) (branch_headers ?b) =
         (ec, chain (header_organizer_organize env during_accept header notify s))"
    by blast
  then show "chain (header_organizer_organize env during_accept header notify s) = chain s"
  proof cases
    case 1
    then show ?thesis .
  next
    case 2
    with a have "snd (chain_reorganize env (chain s) (branch_fork_point ?b) (branch_headers ?b)) = chain s"
      by (metis fst_conv)
    with 2 show ?thesis by simp
  qed
next
  assume a: "(\<forall>c t. fst (chain_store envt c t) \<noteq> success \<longrightarrow> snd (chain_store envt c t) = c) \<and>
    events st = [] \<and> ec' \<noteq> success \<and>
    Handler ec' \<in> set (events (organize_transaction_organize envt da dc tx notify max_money st))"
  from a transaction_rejection_keeps_chain [of st ec' envt da dc tx max_money]
  consider "chain (organize_transaction_organize envt da dc tx notify max_money st) = chain st"
    | "chain_store envt (chain st) tx =
         (ec', chain (organize_transaction_organize envt da dc tx notify max_money st))"
    by blast
  then show "chain (organize_transaction_organize envt da dc tx notify max_money st) = chain st"
  proof cases
    case 1
    then show ?thesis .
  next
    case 2
    with a have "snd (chain_store envt (chain st) tx) = chain st"
      by (metis fst_conv)
    with 2 show ?thesis by simp
  qed
qed

theorem atomic_store_keeps_chain_on_every_error_witness:
  "chain (header_organizer_organize (demo_header_env success demo_branch success (Some 20) success)
      [] 6 notify (start (header_organizer [] [1, 2]))) = [1, 2] \<and>
   chain (organize_transaction_organize (demo_transaction_env success success (other_error 4) success)
      [] [] 7 notify 0 (start (organize_transaction_init [] [1, 2]))) = [1, 2]"
proof -
  let ?h = "header_organizer_organize
      (demo_header_env success demo_branch success (Some 20) success)
      [] 6 notify (start (header_organizer [] [1, 2]))"
  let ?t = "organize_transaction_organize
      (demo_transaction_env success success (other_error 4) success)
      [] [] 7 notify 0 (start (organize_transaction_init [] [1, 2]))"
  have hh: "Handler insufficient_work \<in> set (events ?h)"
    by (simp add: header_defs demo_defs)
  have ht: "Handler (other_error 4) \<in> set (events ?t)"
    by (simp add: tx_defs demo_defs organize_transaction_sufficient_fee_def)
  have ah: "\<forall>c f hs. fst (chain_reorganize (demo_header_env success demo_branch success (Some 20) success) c f hs) \<noteq> success \<longrightarrow>
        snd (chain_reorganize (demo_header_env success demo_branch success (Some 20) success) c f hs) = c"
    by (simp add: demo_defs)
  have at: "\<forall>c t. fst (chain_store (demo_transaction_env success success (other_error 4) success) c t) \<noteq> success \<longrightarrow>
        snd (chain_store (demo_transaction_env success success (other_error 4) success) c t) = c"
    by (simp add: demo_defs)
  have pre_h: "events (start (header_organizer [] [1, 2]) :: (nat list, nat list, nat) organizer) = []"
    and ch: "chain (start (header_organizer [] [1, 2]) :: (nat list, nat list, nat) organizer) = [1, 2]"
    by (simp_all add: demo_defs)
  have pre_t: "events (start (organize_transaction_init [] [1, 2]) :: (nat list, nat list, nat) organize_transaction) = []"
    and ct: "chain (start (organize_transaction_init [] [1, 2]) :: (nat list, nat list, nat) organize_transaction) = [1, 2]"
    by (simp_all add: demo_defs)
  from atomic_store_keeps_chain_on_every_error [where
      env = "demo_header_env success demo_branch success (Some 20) success"
      and header = 6 and during_accept = "[]" and s = "start (header_organizer [] [1, 2])"
      and ec = insufficient_work
      and envt = "demo_transaction_env success success (other_error 4) success"
      and da = "[]" and dc = "[]" and tx = 7 and max_money = 0
      and st = "start (organize_transaction_init [] [1, 2])" and ec' = "other_error 4"]
    hh ht ah at pre_h pre_t ch ct
  show ?thesis by simp
qed

section \<open>One handler call, outside the critical section\<close>

text \<open>
  Claim C4. On every path of both pipelines, for all collaborators, inputs and
  concurrent start and stop calls, the caller's handler is called exactly once, and no
  handler call happens between a lock and its unlock. The validators are taken to hand
  one code to the callback they are given, as the functions \<open>validator_accept\<close>,
  \<open>tx_validator_accept\<close> and \<open>tx_validator_connect\<close> do. For the transaction organizer
  the statement includes that the wait on the promise returns: every path of the
  callback chain sets its value.
\<close>

theorem handler_invoked_once_outside_lock:
  "length (handler_calls (events (header_organizer_organize env during_accept header notify
      (s\<lparr>events := []\<rparr>)))) = 1 \<and>
   handler_outside_lock False (events (header_organizer_organize env during_accept header notify
      (s\<lparr>events := []\<rparr>))) \<and>
   length (handler_calls (events (organize_transaction_organize envt da dc tx notify max_money
      (st\<lparr>events := []\<rparr>)))) = 1 \<and>
   handler_outside_lock False (events (organize_transaction_organize envt da dc tx notify max_money
      (st\<lparr>events := []\<rparr>)))"
proof -
  have header: "length (handler_calls (events (header_organizer_organize env during_accept header notify
      (s\<lparr>events := []\<rparr>)))) = 1 \<and>
   handler_outside_lock False (events (header_organizer_organize env during_accept header notify
      (s\<lparr>events := []\<rparr>)))"
    by (simp add: header_defs split: option.splits prod.splits)
  have transaction: "length (handler_calls (events (organize_transaction_organize envt da dc tx notify max_money
      (st\<lparr>events := []\<rparr>)))) = 1 \<and>
   handler_outside_lock False (events (organize_transaction_organize envt da dc tx notify max_money
      (st\<lparr>events := []\<rparr>)))"
    by (simp add: tx_defs split: option.splits prod.splits)
  from header transaction show ?thesis by simp
qed

section \<open>Where the stopped flag is read\<close>

text \<open>
  Claim C5, as amended. The transaction organizer reads the stopped flag at entry, after
  the check and under the low priority lock, and in its accept and connect
  continuations; the header organizer reads it in its accept continuation only.
  Whenever one of these reads finds the flag set, the handler receives
  \<open>service_stopped\<close>, the lock is released first, and neither \<open>reorganize\<close> nor \<open>store\<close> is
  called: pool and chain are as before.
\<close>

theorem stopped_flag_checks:
  "(tx_validator_check envt tx max_money = success \<and> stopped st \<longrightarrow>
      organize_transaction_organize envt da dc tx notify max_money st =
        st\<lparr>events := events st @ [Check tx, Lock_low_priority, Unlock_low_priority,
              Handler service_stopped]\<rparr>) \<and>
   (tx_validator_check envt tx max_money = success \<and> \<not> stopped st \<and>
    \<not> tx_pool_exists envt (pool st) tx \<and> stopped (run_controls da st) \<longrightarrow>
      organize_transaction_organize envt da dc tx notify max_money st =
        (run_controls da st)\<lparr>events := events st @ [Check tx, Lock_low_priority, Pool_exists tx,
              Accept, Unlock_low_priority, Handler service_stopped],
           resume := Some service_stopped\<rparr>) \<and>
   (tx_validator_check envt tx max_money = success \<and> \<not> stopped st \<and>
    \<not> tx_pool_exists envt (pool st) tx \<and> \<not> stopped (run_controls da st) \<and>
    tx_validator_accept envt (chain st) tx = success \<and>
    organize_transaction_sufficient_fee envt tx \<and>
    \<not> is_dusty envt tx (minimum_output_satoshis (settings_of envt)) \<and>
    stopped (run_controls dc (run_controls da st)) \<longrightarrow>
      organize_transaction_organize envt da dc tx notify max_money st =
        (run_controls dc (run_controls da st))\<lparr>events := events st @ [Check tx, Lock_low_priority,
              Pool_exists tx, Accept, Connect, Unlock_low_priority, Handler service_stopped],
           resume := Some service_stopped\<rparr>) \<and>
   (validator_check env header = success \<and>
    \<not> branch_empty (pool_get_branch env (pool s) (chain s) header) \<and>
    stopped (run_controls during_accept s) \<longrightarrow>
      header_organizer_organize env during_accept header notify s =
        (run_controls during_accept s)\<lparr>events := events s @ [Check header, Lock_high_priority,
              Get_branch header, Accept, Unlock_high_priority, Handler service_stopped]\<rparr>)"
proof (intro conjI impI)
  assume "tx_validator_check envt tx max_money = success \<and> stopped st"
  then show "organize_transaction_organize envt da dc tx notify max_money st =
        st\<lparr>events := events st @ [Check tx, Lock_low_priority, Unlock_low_priority,
              Handler service_stopped]\<rparr>"
    by (auto simp add: tx_defs)
next
  assume "tx_validator_check envt tx max_money = success \<and> \<not> stopped st \<and>
    \<not> tx_pool_exists envt (pool st) tx \<and> stopped (run_controls da st)"
  then show "organize_transaction_organize envt da dc tx notify max_money st =
        (run_controls da st)\<lparr>events := events st @ [Check tx, Lock_low_priority, Pool_exists tx,
              Accept, Unlock_low_priority, Handler service_stopped],
           resume := Some service_stopped\<rparr>"
    by (auto simp add: tx_defs)
next
  assume "tx_validator_check envt tx max_money = success \<and> \<not> stopped st \<and>
    \<not> tx_pool_exists envt (pool st) tx \<and> \<not> stopped (run_controls da st) \<and>
    tx_validator_accept envt (chain st) tx = success \<and>
    organize_transaction_sufficient_fee envt tx \<and>
    \<not> is_dusty envt tx (minimum_output_satoshis (settings_of envt)) \<and>
    stopped (run_controls dc (run_controls da st))"
  then show "organize_transaction_organize envt da dc tx notify max_money st =
        (run_controls dc (run_controls da st))\<lparr>events := events st @ [Check tx, Lock_low_priority,
              Pool_exists tx, Accept, Connect, Unlock_low_priority, Handler service_stopped],
           resume := Some service_stopped\<rparr>"
    by (auto simp add: tx_defs)
next
  assume "validator_check env header = success \<and>
    \<not> branch_empty (pool_get_branch env (pool s) (chain s) header) \<and>
    stopped (run_controls during_accept s)"
  then show "header_organizer_organize env during_accept header notify s =
        (run_controls during_accept s)\<lparr>events := events s @ [Check header, Lock_high_priority,
              Get_branch header, Accept, Unlock_high_priority, Handler service_stopped]\<rparr>"
    by (simp add: header_defs)
qed

text \<open>
  The theorem on a transaction organizer that was never started, on one stopped during
  \<open>accept\<close>, on one stopped during \<open>connect\<close>, and on a header organizer stopped during
  \<open>accept\<close>.
\<close>

theorem stopped_flag_checks_witness:
  "organize_transaction_organize (demo_transaction_env success success success success)
      [] [] 7 notify 0 (organize_transaction_init [] [1, 2]) =
     \<lparr>stopped = True, pool = [], chain = [1, 2],
      events = [Check 7, Lock_low_priority, Unlock_low_priority, Handler service_stopped],
      resume = None\<rparr> \<and>
   organize_transaction_organize (demo_transaction_env success success success success)
      [Stop] [] 7 notify 0 (start (organize_transaction_init [] [1, 2])) =
     \<lparr>stopped = True, pool = [], chain = [1, 2],
      events = [Check 7, Lock_low_priority, Pool_exists 7, Accept, Unlock_low_priority,
        Handler service_stopped],
      resume = Some service_stopped\<rparr> \<and>
   organize_transaction_organize (demo_transaction_env success success success success)
      [] [Stop] 7 notify 0 (start (organize_transaction_init [] [1, 2])) =
     \<lparr>stopped = True, pool = [], chain = [1, 2],
      events = [Check 7, Lock_low_priority, Pool_exists 7, Accept, Connect, Unlock_low_priority,
        Handler service_stopped],
      resume = Some service_stopped\<rparr> \<and>
   header_organizer_organize (demo_header_env success demo_branch success (Some 19) success)
      [Stop] 6 notify (start (header_organizer [] [1, 2])) =
     \<lparr>stopped = True, pool = [], chain = [1, 2],
      events = [Check 6, Lock_high_priority, Get_branch 6, Accept, Unlock_high_priority,
        Handler service_stopped]\<rparr>"
  using stopped_flag_checks [where envt = "demo_transaction_env success success success success"
      and tx = 7 and max_money = 0 and da = "[]" and dc = "[]"
      and st = "organize_transaction_init [] [1, 2]"
      and env = "demo_header_env success demo_branch success (Some 19) success"
      and header = 6 and during_accept = "[Stop]" and s = "start (header_organizer [] [1, 2])"]
    stopped_flag_checks [where envt = "demo_transaction_env success success success success"
      and tx = 7 and max_money = 0 and da = "[Stop]" and dc = "[]"
      and st = "start (organize_transaction_init [] [1, 2])"
      and env = "demo_header_env success demo_branch success (Some 19) success"
      and header = 6 and during_accept = "[Stop]" and s = "start (header_organizer [] [1, 2])"]
    stopped_flag_checks [where envt = "demo_transaction_env success success success success"
      and tx = 7 and max_money = 0 and da = "[]" and dc = "[Stop]"
      and st = "start (organize_transaction_init [] [1, 2])"
      and env = "demo_header_env success demo_branch success (Some 19) success"
      and header = 6 and during_accept = "[Stop]" and s = "start (header_organizer [] [1, 2])"]
  by (simp add: demo_defs organize_transaction_sufficient_fee_def)

text \<open>
  Claim C5 as stated fails for the header organizer, whose \<^verbatim>\<open>organize\<close> has no read of
  the flag before the accept continuation: an organizer that is stopped (here: never
  started) answers a header that is already indexed with \<open>duplicate_block\<close>, not
  \<open>service_stopped\<close>.
\<close>

theorem stopped_header_organizer_reports_duplicate:
  "stopped (header_organizer [] [1, 2] :: (nat list, nat list, nat) organizer) \<and>
   handler_calls (events (header_organizer_organize
      (demo_header_env success demo_empty_branch success (Some 0) success)
      [] 2 notify (header_organizer [] [1, 2]))) = [duplicate_block]"
  by (simp add: header_defs demo_defs)

section \<open>Admitted transactions and the pool\<close>

text \<open>
  Claim C6 says that a transaction admitted with success is inserted into the
  transaction pool after the connect step, so that \<open>exists\<close> is true at the next
  \<^verbatim>\<open>organize\<close> of the same transaction. The source does not do so: at the place where
  the transaction would enter the pool, \<^verbatim>\<open>handle_connect\<close> has the comment
  \<^verbatim>\<open>TODO: add to pool_\<close> and calls \<open>store\<close> only. Evaluated on a transaction that is
  admitted with success: the pool is as before, \<open>exists\<close> on it is still false, and
  a second \<^verbatim>\<open>organize\<close> of the same transaction is not answered with
  \<open>duplicate_transaction\<close> but stores it again.
\<close>

theorem admitted_transaction_not_pooled:
  "organize_transaction_organize (demo_transaction_env success success success success)
      [] [] 7 notify 0 (start (organize_transaction_init [] [1, 2])) =
     \<lparr>stopped = False, pool = [], chain = [1, 2, 7],
      events = [Check 7, Lock_low_priority, Pool_exists 7, Accept, Connect, Store 7,
        Unlock_low_priority, Handler success],
      resume = Some success\<rparr> \<and>
   tx_pool_exists (demo_transaction_env success success success success)
      (pool (organize_transaction_organize (demo_transaction_env success success success success)
         [] [] 7 notify 0 (start (organize_transaction_init [] [1, 2])))) 7 = False \<and>
   handler_calls (events (organize_transaction_organize
      (demo_transaction_env success success success success) [] [] 7 notify 0
      (organize_transaction_organize (demo_transaction_env success success success success)
         [] [] 7 notify 0 (start (organize_transaction_init [] [1, 2]))))) = [success, success]"
  by (simp add: tx_defs demo_defs organize_transaction_sufficient_fee_def)

text \<open>
No path of the transaction organizer changes the pool.
\<close>

theorem organize_transaction_keeps_pool:
  "pool (organize_transaction_organize env da dc tx notify max_money s) = pool s"
  by (simp add: tx_defs split: option.splits prod.splits)

section \<open>The fee policy\<close>

text \<open>
  Claim C7, as amended. \<^verbatim>\<open>sufficient_fee\<close> accepts every transaction when both
  configured fees are zero. Otherwise, for fees that are not negative, it accepts a
  transaction if and only if its fees are at least the price, the maximum of 1 and the
  floor of the sum of the two products, where the sum is evaluated in single precision
  as the source does (size and sigop count converted to float, each product and the sum
  rounded) and is below \<open>2^64\<close>. A transaction that pays exactly this price is accepted,
  and a transaction that pays nothing is rejected whenever the fees are not both zero.
  When the fees are whole numbers and the exact sum is below \<open>2^24\<close>, no rounding
  happens and the test is the one of the claim with the exact sum.
\<close>

theorem sufficient_fee_single_precision:
  assumes "float_ops env = binary32"
    and "0 \<le> byte_fee_satoshis (settings_of env)"
    and "0 \<le> sigop_fee_satoshis (settings_of env)"
  shows "(single_precision_sum env tx < 2 ^ 64 \<longrightarrow>
            organize_transaction_sufficient_fee env tx =
              (byte_fee_satoshis (settings_of env) = 0 \<and> sigop_fee_satoshis (settings_of env) = 0 \<or>
               single_precision_price env tx \<le> uint (fees env tx))) \<and>
         (single_precision_sum env tx < 2 ^ 64 \<and>
          uint (fees env tx) = single_precision_price env tx \<longrightarrow>
            organize_transaction_sufficient_fee env tx) \<and>
         (fees env tx = 0 \<and>
          \<not> (byte_fee_satoshis (settings_of env) = 0 \<and> sigop_fee_satoshis (settings_of env) = 0) \<longrightarrow>
            \<not> organize_transaction_sufficient_fee env tx) \<and>
         (byte_fee_satoshis (settings_of env) = of_nat a \<and>
          sigop_fee_satoshis (settings_of env) = of_nat b \<and>
          a * unat (serialized_size env tx) + b * unat (signature_operations env tx) < 16777216 \<longrightarrow>
            organize_transaction_sufficient_fee env tx = claimed_sufficient_fee env tx)"
proof -
  note code = sufficient_fee_binary32 [OF assms, of tx]
  have in_range: "max 1 (cast_uint64 (single_precision_sum env tx)) \<le> fees env tx \<longleftrightarrow>
      single_precision_price env tx \<le> uint (fees env tx)"
    if "single_precision_sum env tx < 2 ^ 64"
    using that single_precision_sum_nonneg [OF assms(2,3), of tx]
    by (simp add: word_le_def uint_max_one cast_uint64_floor single_precision_price_def)
  have first: "single_precision_sum env tx < 2 ^ 64 \<longrightarrow>
      organize_transaction_sufficient_fee env tx =
        (byte_fee_satoshis (settings_of env) = 0 \<and> sigop_fee_satoshis (settings_of env) = 0 \<or>
         single_precision_price env tx \<le> uint (fees env tx))"
    using code in_range by simp
  have second: "single_precision_sum env tx < 2 ^ 64 \<and>
      uint (fees env tx) = single_precision_price env tx \<longrightarrow>
        organize_transaction_sufficient_fee env tx"
    using first by simp
  have "\<not> max 1 w \<le> (0 :: uint64_t)" for w
    by (auto simp add: max_def)
  then have third: "fees env tx = 0 \<and>
      \<not> (byte_fee_satoshis (settings_of env) = 0 \<and> sigop_fee_satoshis (settings_of env) = 0) \<longrightarrow>
        \<not> organize_transaction_sufficient_fee env tx"
    using code by auto
  have fourth: "byte_fee_satoshis (settings_of env) = of_nat a \<and>
      sigop_fee_satoshis (settings_of env) = of_nat b \<and>
      a * unat (serialized_size env tx) + b * unat (signature_operations env tx) < 16777216 \<longrightarrow>
        organize_transaction_sufficient_fee env tx = claimed_sufficient_fee env tx"
  proof
    assume h: "byte_fee_satoshis (settings_of env) = of_nat a \<and>
      sigop_fee_satoshis (settings_of env) = of_nat b \<and>
      a * unat (serialized_size env tx) + b * unat (signature_operations env tx) < 16777216"
    let ?t = "a * unat (serialized_size env tx) + b * unat (signature_operations env tx)"
    from h have exact: "single_precision_sum env tx = of_nat ?t"
      by (simp add: single_precision_sum_exact)
    from h have "?t < 2 ^ 64" by simp
    then have "rat_of_nat ?t < rat_of_nat (2 ^ 64)" by (simp only: of_nat_less_iff)
    then have "rat_of_nat ?t < 2 ^ 64" by simp
    with exact first have "organize_transaction_sufficient_fee env tx =
        (byte_fee_satoshis (settings_of env) = 0 \<and> sigop_fee_satoshis (settings_of env) = 0 \<or>
         single_precision_price env tx \<le> uint (fees env tx))"
      by simp
    moreover have "single_precision_price env tx = claimed_price env tx"
      using h exact by (simp add: single_precision_price_def claimed_price_def)
    ultimately show "organize_transaction_sufficient_fee env tx = claimed_sufficient_fee env tx"
      by (auto simp add: claimed_sufficient_fee_def)
  qed
  from first second third fourth show ?thesis by blast
qed

text \<open>
  The theorem at a byte fee of 1 and a sigop fee of 0: a transaction of 100 bytes that
  pays 100 is accepted, one that pays 99 or nothing is not, as the claim's exact test
  says as well. At a byte fee of 1001 and 100001 bytes the price in single precision is
  100101000, and a transaction that pays it is accepted.
\<close>

theorem sufficient_fee_single_precision_witness:
  "single_precision_price (demo_fee_env 1 0 100 2 100) 7 = 100 \<and>
   organize_transaction_sufficient_fee (demo_fee_env 1 0 100 2 100) 7 \<and>
   \<not> organize_transaction_sufficient_fee (demo_fee_env 1 0 100 2 99) 7 \<and>
   \<not> organize_transaction_sufficient_fee (demo_fee_env 1 0 100 2 0) 7 \<and>
   organize_transaction_sufficient_fee (demo_fee_env 1 0 100 2 99) 7 =
     claimed_sufficient_fee (demo_fee_env 1 0 100 2 99) 7 \<and>
   single_precision_price (demo_fee_env 1001 0 100001 1 100101000) 7 = 100101000 \<and>
   organize_transaction_sufficient_fee (demo_fee_env 1001 0 100001 1 100101000) 7"
proof -
  have rounded: "round_binary32 100 = 100" "round_binary32 2 = 2"
    "round_binary32 100001 = 100001" "round_binary32 1 = 1"
    "round_binary32 100101001 = 100101000" "round_binary32 100101000 = 100101000"
    by (simp_all add: binary32_eval)
  have total: "single_precision_sum (demo_fee_env 1 0 100 2 paid) 7 = 100"
    "single_precision_sum (demo_fee_env 1001 0 100001 1 paid) 7 = 100101000" for paid
    by (simp_all add: single_precision_sum_def demo_fee_env_fields rounded round_binary32_zero)
  then have price: "single_precision_price (demo_fee_env 1 0 100 2 paid) 7 = 100"
    "single_precision_price (demo_fee_env 1001 0 100001 1 paid) 7 = 100101000" for paid
    by (simp_all add: single_precision_price_def)
  from sufficient_fee_single_precision [where env = "demo_fee_env 1 0 100 2 100" and tx = 7
      and a = 1 and b = 0]
    sufficient_fee_single_precision [where env = "demo_fee_env 1 0 100 2 99" and tx = 7
      and a = 1 and b = 0]
    sufficient_fee_single_precision [where env = "demo_fee_env 1 0 100 2 0" and tx = 7
      and a = 1 and b = 0]
    sufficient_fee_single_precision [where env = "demo_fee_env 1001 0 100001 1 100101000"
      and tx = 7 and a = 1001 and b = 0]
  show ?thesis
    by (auto simp add: demo_fee_env_fields total price)
qed

text \<open>
  Claim C7 as stated fails where single precision rounds. At a byte fee of 1 and a size
  of \<open>2^24 + 1\<close> bytes the exact price is 16777217, but the size is not a float and is
  converted to 16777216: the source accepts a payment of 16777216, which the claim
  rejects. At a byte fee of 1001 and a size of 100001 bytes the exact price is
  100101001 and the product is rounded to 100101000, which the source accepts as
  payment.
\<close>

theorem single_precision_rounds_the_price:
  "claimed_price (demo_fee_env 1 0 16777217 1 16777216) 7 = 16777217 \<and>
   \<not> claimed_sufficient_fee (demo_fee_env 1 0 16777217 1 16777216) 7 \<and>
   organize_transaction_sufficient_fee (demo_fee_env 1 0 16777217 1 16777216) 7 \<and>
   claimed_price (demo_fee_env 1001 0 100001 1 100101000) 7 = 100101001 \<and>
   \<not> claimed_sufficient_fee (demo_fee_env 1001 0 100001 1 100101000) 7 \<and>
   organize_transaction_sufficient_fee (demo_fee_env 1001 0 100001 1 100101000) 7"
proof -
  have claimed: "claimed_price (demo_fee_env 1 0 16777217 1 16777216) 7 = 16777217"
    "claimed_price (demo_fee_env 1001 0 100001 1 100101000) 7 = 100101001"
    by (simp_all add: claimed_price_def demo_fee_env_fields)
  then have rejected: "\<not> claimed_sufficient_fee (demo_fee_env 1 0 16777217 1 16777216) 7"
    "\<not> claimed_sufficient_fee (demo_fee_env 1001 0 100001 1 100101000) 7"
    by (simp_all add: claimed_sufficient_fee_def demo_fee_env_fields)
  have rounded: "round_binary32 16777217 = 16777216" "round_binary32 16777216 = 16777216"
    "round_binary32 100001 = 100001" "round_binary32 100101001 = 100101000"
    "round_binary32 100101000 = 100101000"
    by (simp_all add: binary32_eval)
  have casts: "cast_uint64 16777216 = 16777216" "cast_uint64 100101000 = 100101000"
    by (simp_all add: cast_uint64_def)
  have accepted: "organize_transaction_sufficient_fee (demo_fee_env 1 0 16777217 1 16777216) 7"
    "organize_transaction_sufficient_fee (demo_fee_env 1001 0 100001 1 100101000) 7"
    by (simp_all add: organize_transaction_sufficient_fee_def demo_fee_env_fields binary32_ops
        rounded casts)
  from claimed rejected accepted show ?thesis by simp
qed

section \<open>A failed accept\<close>

text \<open>
  Claim C8, as amended. For every header branch on which the validator's \<open>accept\<close>
  reports an error, the header organizer releases the high priority lock and then calls
  the handler once: with exactly the validator's code when the organizer is not stopped
  at the time the accept continuation runs, and with \<open>service_stopped\<close> when it is. In
  both cases neither the top nor any other header of the branch is added to the pool,
  and the chain is untouched.
\<close>

theorem accept_failure_reported:
  "(validator_check env header = success \<and>
    \<not> branch_empty (pool_get_branch env (pool s) (chain s) header) \<and>
    validator_accept env (chain s) (pool_get_branch env (pool s) (chain s) header) \<noteq> success \<and>
    \<not> stopped (run_controls during_accept s) \<longrightarrow>
      header_organizer_organize env during_accept header notify s =
        (run_controls during_accept s)\<lparr>events := events s @ [Check header, Lock_high_priority,
           Get_branch header, Accept, Unlock_high_priority,
           Handler (validator_accept env (chain s) (pool_get_branch env (pool s) (chain s) header))]\<rparr>) \<and>
   (validator_check env header = success \<and>
    \<not> branch_empty (pool_get_branch env (pool s) (chain s) header) \<and>
    validator_accept env (chain s) (pool_get_branch env (pool s) (chain s) header) \<noteq> success \<and>
    stopped (run_controls during_accept s) \<longrightarrow>
      header_organizer_organize env during_accept header notify s =
        (run_controls during_accept s)\<lparr>events := events s @ [Check header, Lock_high_priority,
           Get_branch header, Accept, Unlock_high_priority, Handler service_stopped]\<rparr>)"
  by (simp add: header_defs)

text \<open>
The theorem on a branch that the validator rejects with \<open>other_error 7\<close>.
\<close>

theorem accept_failure_reported_witness:
  "header_organizer_organize (demo_header_env success demo_branch (other_error 7) (Some 19) success)
      [] 6 notify (start (header_organizer [] [1, 2])) =
     \<lparr>stopped = False, pool = [], chain = [1, 2],
      events = [Check 6, Lock_high_priority, Get_branch 6, Accept, Unlock_high_priority,
        Handler (other_error 7)]\<rparr> \<and>
   header_organizer_organize (demo_header_env success demo_branch (other_error 7) (Some 19) success)
      [Stop] 6 notify (start (header_organizer [] [1, 2])) =
     \<lparr>stopped = True, pool = [], chain = [1, 2],
      events = [Check 6, Lock_high_priority, Get_branch 6, Accept, Unlock_high_priority,
        Handler service_stopped]\<rparr>"
  using accept_failure_reported [where
      env = "demo_header_env success demo_branch (other_error 7) (Some 19) success"
      and header = 6 and during_accept = "[]" and s = "start (header_organizer [] [1, 2])"]
    accept_failure_reported [where
      env = "demo_header_env success demo_branch (other_error 7) (Some 19) success"
      and header = 6 and during_accept = "[Stop]" and s = "start (header_organizer [] [1, 2])"]
  by (simp add: demo_defs)

text \<open>
  Claim C8 as stated fails when \<^verbatim>\<open>stop()\<close> is called while \<open>accept\<close> runs: the validator
  reports \<open>other_error 7\<close> and the handler receives \<open>service_stopped\<close>.
\<close>

theorem stop_during_accept_hides_validator_code:
  "validator_accept (demo_header_env success demo_branch (other_error 7) (Some 19) success)
      [1, 2] demo_branch = other_error 7 \<and>
   handler_calls (events (header_organizer_organize
      (demo_header_env success demo_branch (other_error 7) (Some 19) success)
      [Stop] 6 notify (start (header_organizer [] [1, 2])))) = [service_stopped]"
  by (simp add: header_defs demo_defs)

section \<open>A failed check\<close>

text \<open>
  Claim C9. When the context free check fails, both pipelines call the handler with the
  code of the check and do nothing else: no lock is taken, the stopped flag is not read
  (the result is the same whether the organizer is stopped or not), and no pool or chain
  operation is called.
\<close>

theorem check_failure_reported_first:
  "(validator_check env header \<noteq> success \<longrightarrow>
      header_organizer_organize env during_accept header notify s =
        s\<lparr>events := events s @ [Check header, Handler (validator_check env header)]\<rparr>) \<and>
   (tx_validator_check envt tx max_money \<noteq> success \<longrightarrow>
      organize_transaction_organize envt da dc tx notify max_money st =
        st\<lparr>events := events st @ [Check tx, Handler (tx_validator_check envt tx max_money)]\<rparr>)"
  by (simp add: header_defs tx_defs)

text \<open>
The theorem on two organizers that were never started, hence stopped.
\<close>

theorem check_failure_reported_first_witness:
  "header_organizer_organize (demo_header_env (other_error 1) demo_branch success (Some 19) success)
      [] 6 notify (header_organizer [] [1, 2]) =
     \<lparr>stopped = True, pool = [], chain = [1, 2],
      events = [Check 6, Handler (other_error 1)]\<rparr> \<and>
   organize_transaction_organize (demo_transaction_env (other_error 2) success success success)
      [] [] 7 notify 0 (organize_transaction_init [] [1, 2]) =
     \<lparr>stopped = True, pool = [], chain = [1, 2],
      events = [Check 7, Handler (other_error 2)], resume = None\<rparr>"
  using check_failure_reported_first [where
      env = "demo_header_env (other_error 1) demo_branch success (Some 19) success"
      and header = 6 and during_accept = "[]" and s = "header_organizer [] [1, 2]"
      and envt = "demo_transaction_env (other_error 2) success success success"
      and tx = 7 and max_money = 0 and da = "[]" and dc = "[]"
      and st = "organize_transaction_init [] [1, 2]"]
  by (simp add: demo_defs)

section \<open>The order of the guards in the accept continuation\<close>

text \<open>
  Claim C10. In \<^verbatim>\<open>handle_accept\<close> of both organizers the stopped flag is tested before
  the code of the validator: when the organizer is stopped as the continuation runs, the
  handler receives \<open>service_stopped\<close> whatever code the validator reported. This is stated
  for the continuation itself and for the whole \<^verbatim>\<open>organize\<close> call.
\<close>

theorem stopped_tested_before_accept_code:
  "(stopped s \<longrightarrow>
      header_organizer_handle_accept env ec branch handler s = handler service_stopped s) \<and>
   (stopped st \<longrightarrow>
      organize_transaction_handle_accept envt dc ec' tx handler' st = handler' service_stopped st) \<and>
   (validator_check env header = success \<and>
    \<not> branch_empty (pool_get_branch env (pool hst) (chain hst) header) \<and>
    stopped (run_controls during_accept hst) \<longrightarrow>
      handler_calls (events (header_organizer_organize env during_accept header notify
        (hst\<lparr>events := []\<rparr>))) = [service_stopped]) \<and>
   (tx_validator_check envt tx max_money = success \<and> \<not> stopped tst \<and>
    \<not> tx_pool_exists envt (pool tst) tx \<and> stopped (run_controls da tst) \<longrightarrow>
      handler_calls (events (organize_transaction_organize envt da dc tx notify max_money
        (tst\<lparr>events := []\<rparr>))) = [service_stopped])"
  by (intro conjI impI; clarsimp simp add: header_defs tx_defs)

text \<open>
The theorem with validators that report \<open>other_error 7\<close> and \<open>other_error 8\<close>.
\<close>

theorem stopped_tested_before_accept_code_witness:
  "header_organizer_handle_accept (demo_header_env success demo_branch (other_error 7) (Some 19) success)
      (other_error 7) demo_branch notify (header_organizer [] [1, 2]) =
     notify service_stopped (header_organizer [] [1, 2]) \<and>
   organize_transaction_handle_accept (demo_transaction_env success (other_error 8) success success)
      [] (other_error 8) 7 notify (organize_transaction_init [] [1, 2]) =
     notify service_stopped (organize_transaction_init [] [1, 2]) \<and>
   handler_calls (events (header_organizer_organize
      (demo_header_env success demo_branch (other_error 7) (Some 19) success)
      [Stop] 6 notify ((start (header_organizer [] [1, 2]))\<lparr>events := []\<rparr>))) = [service_stopped] \<and>
   handler_calls (events (organize_transaction_organize
      (demo_transaction_env success (other_error 8) success success)
      [Stop] [] 7 notify 0 ((start (organize_transaction_init [] [1, 2]))\<lparr>events := []\<rparr>))) =
     [service_stopped]"
  using stopped_tested_before_accept_code [where
      env = "demo_header_env success demo_branch (other_error 7) (Some 19) success"
      and ec = "other_error 7" and branch = demo_branch and handler = notify
      and s = "header_organizer [] [1, 2]"
      and envt = "demo_transaction_env success (other_error 8) success success"
      and dc = "[]" and ec' = "other_error 8" and tx = 7 and handler' = notify
      and st = "organize_transaction_init [] [1, 2]"
      and header = 6 and during_accept = "[Stop]" and hst = "start (header_organizer [] [1, 2])"
      and max_money = 0 and da = "[Stop]" and tst = "start (organize_transaction_init [] [1, 2])"]
  by (simp add: demo_defs)

section \<open>Further properties of the pipelines\<close>

text \<open>
  The header organizer changes the header pool on one path only: a call either leaves
  the pool as it was, or adds the top of the branch at its top height and reports
  \<open>insufficient_work\<close>.
\<close>

theorem header_pool_changes_only_on_insufficient_work:
  "pool (header_organizer_organize env during_accept header notify (s\<lparr>events := []\<rparr>)) = pool s \<or>
   pool (header_organizer_organize env during_accept header notify (s\<lparr>events := []\<rparr>)) =
     pool_add env (pool s) (branch_top (pool_get_branch env (pool s) (chain s) header))
       (branch_top_height (pool_get_branch env (pool s) (chain s) header)) \<and>
   handler_calls (events (header_organizer_organize env during_accept header notify
     (s\<lparr>events := []\<rparr>))) = [insufficient_work]"
  by (simp add: header_defs split: option.splits prod.splits)

text \<open>
  A call that reports success has made exactly one fast chain write, the \<open>reorganize\<close>
  of the branch (or the \<open>store\<close> of the transaction), this write returned success, and
  the chain is the one it left.
\<close>

theorem success_means_one_commit:
  "(handler_calls (events (header_organizer_organize env during_accept header notify
      (s\<lparr>events := []\<rparr>))) = [success] \<longrightarrow>
      fast_chain_writes (events (header_organizer_organize env during_accept header notify
        (s\<lparr>events := []\<rparr>))) =
        [Reorganize (branch_fork_point (pool_get_branch env (pool s) (chain s) header))
           (branch_headers (pool_get_branch env (pool s) (chain s) header))] \<and>
      chain_reorganize env (chain s)
          (branch_fork_point (pool_get_branch env (pool s) (chain s) header))
          (branch_headers (pool_get_branch env (pool s) (chain s) header)) =
        (success, chain (header_organizer_organize env during_accept header notify
          (s\<lparr>events := []\<rparr>)))) \<and>
   (handler_calls (events (organize_transaction_organize envt da dc tx notify max_money
      (st\<lparr>events := []\<rparr>))) = [success] \<longrightarrow>
      fast_chain_writes (events (organize_transaction_organize envt da dc tx notify max_money
        (st\<lparr>events := []\<rparr>))) = [Store tx] \<and>
      chain_store envt (chain st) tx =
        (success, chain (organize_transaction_organize envt da dc tx notify max_money
          (st\<lparr>events := []\<rparr>))))"
proof (intro conjI impI)
  assume "handler_calls (events (header_organizer_organize env during_accept header notify
      (s\<lparr>events := []\<rparr>))) = [success]"
  then show "fast_chain_writes (events (header_organizer_organize env during_accept header notify
        (s\<lparr>events := []\<rparr>))) =
        [Reorganize (branch_fork_point (pool_get_branch env (pool s) (chain s) header))
           (branch_headers (pool_get_branch env (pool s) (chain s) header))]"
    by (auto simp add: header_defs split: option.splits prod.splits if_splits)
next
  assume "handler_calls (events (header_organizer_organize env during_accept header notify
      (s\<lparr>events := []\<rparr>))) = [success]"
  then show "chain_reorganize env (chain s)
          (branch_fork_point (pool_get_branch env (pool s) (chain s) header))
          (branch_headers (pool_get_branch env (pool s) (chain s) header)) =
        (success, chain (header_organizer_organize env during_accept header notify
          (s\<lparr>events := []\<rparr>)))"
    by (auto simp add: header_defs split: option.splits prod.splits if_splits)
next
  assume "handler_calls (events (organize_transaction_organize envt da dc tx notify max_money
      (st\<lparr>events := []\<rparr>))) = [success]"
  then show "fast_chain_writes (events (organize_transaction_organize envt da dc tx notify max_money
        (st\<lparr>events := []\<rparr>))) = [Store tx]"
    by (auto simp add: tx_defs split: option.splits prod.splits if_splits)
next
  assume "handler_calls (events (organize_transaction_organize envt da dc tx notify max_money
      (st\<lparr>events := []\<rparr>))) = [success]"
  then show "chain_store envt (chain st) tx =
        (success, chain (organize_transaction_organize envt da dc tx notify max_money
          (st\<lparr>events := []\<rparr>)))"
    by (auto simp add: tx_defs split: option.splits prod.splits if_splits)
qed

theorem success_means_one_commit_witness:
  "fast_chain_writes (events (header_organizer_organize
      (demo_header_env success demo_branch success (Some 19) success)
      [] 6 notify ((start (header_organizer [] [1, 2]))\<lparr>events := []\<rparr>))) =
     [Reorganize (0, 1) [5, 6]] \<and>
   chain (header_organizer_organize
      (demo_header_env success demo_branch success (Some 19) success)
      [] 6 notify ((start (header_organizer [] [1, 2]))\<lparr>events := []\<rparr>)) = [1, 5, 6] \<and>
   fast_chain_writes (events (organize_transaction_organize
      (demo_transaction_env success success success success)
      [] [] 7 notify 0 ((start (organize_transaction_init [] [1, 2]))\<lparr>events := []\<rparr>))) =
     [Store 7] \<and>
   chain (organize_transaction_organize
      (demo_transaction_env success success success success)
      [] [] 7 notify 0 ((start (organize_transaction_init [] [1, 2]))\<lparr>events := []\<rparr>)) = [1, 2, 7]"
proof -
  have hh: "handler_calls (events (header_organizer_organize
      (demo_header_env success demo_branch success (Some 19) success)
      [] 6 notify ((start (header_organizer [] [1, 2]))\<lparr>events := []\<rparr>))) = [success]"
    by (simp add: header_defs demo_defs)
  have ht: "handler_calls (events (organize_transaction_organize
      (demo_transaction_env success success success success)
      [] [] 7 notify 0 ((start (organize_transaction_init [] [1, 2]))\<lparr>events := []\<rparr>))) = [success]"
    by (simp add: tx_defs demo_defs organize_transaction_sufficient_fee_def)
  from hh ht success_means_one_commit [where
      env = "demo_header_env success demo_branch success (Some 19) success"
      and header = 6 and during_accept = "[]" and s = "start (header_organizer [] [1, 2])"
      and envt = "demo_transaction_env success success success success"
      and da = "[]" and dc = "[]" and tx = 7 and max_money = 0
      and st = "start (organize_transaction_init [] [1, 2])"]
  show ?thesis by (simp add: demo_defs)
qed

end
